theory Spec2Isabelle
  imports Complex_Main "HOL-Library.AList" "HOL-Library.Multiset"
begin

section \<open>JavaScript values\<close>

text \<open>
  The program is JavaScript. Its numbers are modelled as exact rationals extended by the
  three non-finite values of the language; binary64 rounding, the sign of zero and the
  exponent notation of very large or very small magnitudes are not part of the model.
  A cell of a parsed CSV row and a metadata value of the vector store is a scalar:
  \<open>undefined\<close> (also what reading an absent property gives), \<open>null\<close>, a boolean, a number
  or a string. Strings are byte lists; a character outside ASCII is its UTF-8 bytes.
\<close>

datatype jsnum = Fin rat | PInf | NInf | NaN

datatype jsval = JUndefined | JNull | JBool bool | JNum jsnum | JStr string

text \<open>An object is the list of its properties in creation order.\<close>

type_synonym jsobj = "(string \<times> jsval) list"

datatype jserror = Error string | TypeError string

subsection \<open>Arithmetic and comparison of numbers\<close>

fun js_neg :: "jsnum \<Rightarrow> jsnum" where
  "js_neg (Fin q) = Fin (- q)"
| "js_neg PInf = NInf"
| "js_neg NInf = PInf"
| "js_neg NaN = NaN"

fun js_add :: "jsnum \<Rightarrow> jsnum \<Rightarrow> jsnum" where
  "js_add NaN _ = NaN"
| "js_add _ NaN = NaN"
| "js_add (Fin a) (Fin b) = Fin (a + b)"
| "js_add PInf NInf = NaN"
| "js_add NInf PInf = NaN"
| "js_add PInf _ = PInf"
| "js_add _ PInf = PInf"
| "js_add NInf _ = NInf"
| "js_add _ NInf = NInf"

definition js_sub :: "jsnum \<Rightarrow> jsnum \<Rightarrow> jsnum" where
  "js_sub a b = js_add a (js_neg b)"


fun js_div :: "jsnum \<Rightarrow> jsnum \<Rightarrow> jsnum" where
  "js_div NaN _ = NaN"
| "js_div _ NaN = NaN"
| "js_div (Fin a) (Fin b) =
     (if b = 0 then (if a = 0 then NaN else if 0 < a then PInf else NInf)
      else Fin (a / b))"
| "js_div (Fin a) _ = Fin 0"
| "js_div PInf (Fin b) = (if b < 0 then NInf else PInf)"
| "js_div NInf (Fin b) = (if b < 0 then PInf else NInf)"
| "js_div _ _ = NaN"

fun js_lt :: "jsnum \<Rightarrow> jsnum \<Rightarrow> bool" where
  "js_lt NaN _ = False"
| "js_lt _ NaN = False"
| "js_lt (Fin a) (Fin b) = (a < b)"
| "js_lt _ NInf = False"
| "js_lt PInf _ = False"
| "js_lt _ PInf = True"
| "js_lt NInf _ = True"

definition js_gt :: "jsnum \<Rightarrow> jsnum \<Rightarrow> bool" where
  "js_gt a b = js_lt b a"


subsection \<open>Truthiness and the \<open>||\<close> operator\<close>

fun truthy :: "jsval \<Rightarrow> bool" where
  "truthy JUndefined = False"
| "truthy JNull = False"
| "truthy (JBool b) = b"
| "truthy (JNum n) = (n \<noteq> NaN \<and> n \<noteq> Fin 0)"
| "truthy (JStr s) = (s \<noteq> [])"

definition js_or :: "jsval \<Rightarrow> jsval \<Rightarrow> jsval" where
  "js_or a b = (if truthy a then a else b)"

text \<open>Property read \<open>o.k\<close> or \<open>o[k]\<close> on an object.\<close>

definition js_get :: "jsobj \<Rightarrow> string \<Rightarrow> jsval" where
  "js_get ob k = (case map_of ob k of None \<Rightarrow> JUndefined | Some v \<Rightarrow> v)"

subsection \<open>Numbers to strings\<close>

definition digit_char :: "nat \<Rightarrow> char" where
  "digit_char d = char_of (48 + d)"

function show_nat :: "nat \<Rightarrow> string" where
  "show_nat n = (if n < 10 then [digit_char n] else show_nat (n div 10) @ [digit_char (n mod 10)])"
  by pat_completeness auto
termination
  by (relation "measure id") auto

declare show_nat.simps [simp del]

text \<open>The digits of a fractional part \<open>0 \<le> r < 1\<close>, at most \<open>k\<close> of them.\<close>

fun frac_digits :: "nat \<Rightarrow> rat \<Rightarrow> string" where
  "frac_digits 0 r = []"
| "frac_digits (Suc k) r =
     (if r = 0 then []
      else digit_char (nat \<lfloor>r * 10\<rfloor>) # frac_digits k (r * 10 - of_int \<lfloor>r * 10\<rfloor>))"

definition show_pos_rat :: "rat \<Rightarrow> string" where
  "show_pos_rat q =
     (let ip = nat \<lfloor>q\<rfloor>; fr = q - of_int \<lfloor>q\<rfloor>
      in if fr = 0 then show_nat ip else show_nat ip @ ''.'' @ frac_digits 20 fr)"

text \<open>
  \<open>Number::toString\<close>: a finite value is printed positionally by its decimal expansion
  (cut after twenty fractional digits).
\<close>

fun Number_toString :: "jsnum \<Rightarrow> string" where
  "Number_toString NaN = ''NaN''"
| "Number_toString PInf = ''Infinity''"
| "Number_toString NInf = ''-Infinity''"
| "Number_toString (Fin q) = (if q < 0 then ''-'' @ show_pos_rat (- q) else show_pos_rat q)"

text \<open>String conversion, as a template literal \<open>`${v}`\<close> performs it.\<close>

fun ToString :: "jsval \<Rightarrow> string" where
  "ToString JUndefined = ''undefined''"
| "ToString JNull = ''null''"
| "ToString (JBool b) = (if b then ''true'' else ''false'')"
| "ToString (JNum n) = Number_toString n"
| "ToString (JStr s) = s"



subsection \<open>Strings to numbers\<close>

definition is_digit :: "char \<Rightarrow> bool" where
  "is_digit c = (48 \<le> (of_char c :: nat) \<and> (of_char c :: nat) \<le> 57)"

definition is_ws :: "char \<Rightarrow> bool" where
  "is_ws c = ((of_char c :: nat) \<in> {9, 10, 11, 12, 13, 32})"

definition digit_val :: "char \<Rightarrow> nat" where
  "digit_val c = of_char c - 48"

definition digits_val :: "string \<Rightarrow> nat" where
  "digits_val ds = foldl (\<lambda>a c. a * 10 + digit_val c) 0 ds"

text \<open>
  The exponent part of a decimal literal: \<open>e\<close> or \<open>E\<close>, an optional sign and at least one
  digit. Returns the factor and the rest; a malformed exponent is not consumed.
\<close>

definition parse_exponent :: "string \<Rightarrow> rat \<times> string" where
  "parse_exponent s =
     (case s of
        [] \<Rightarrow> (1, s)
      | c # t \<Rightarrow>
          if c = CHR ''e'' \<or> c = CHR ''E'' then
            (let neg = (t \<noteq> [] \<and> hd t = CHR ''-'');
                 u = (if t \<noteq> [] \<and> (hd t = CHR ''-'' \<or> hd t = CHR ''+'') then tl t else t);
                 ds = takeWhile is_digit u
             in if ds = [] then (1, s)
                else (if neg then 1 / 10 ^ digits_val ds else 10 ^ digits_val ds,
                      dropWhile is_digit u))
          else (1, s))"

text \<open>
  The longest unsigned decimal literal at the start of a string (digits, an optional
  fraction, an optional exponent), with the rest of the string.
\<close>

definition parse_decimal :: "string \<Rightarrow> (rat \<times> string) option" where
  "parse_decimal s =
     (let ip = takeWhile is_digit s;
          r1 = dropWhile is_digit s;
          dot = (r1 \<noteq> [] \<and> hd r1 = CHR ''.'');
          fp = (if dot then takeWhile is_digit (tl r1) else []);
          r2 = (if dot then dropWhile is_digit (tl r1) else r1)
      in if ip = [] \<and> fp = [] then None
         else (let mant = of_nat (digits_val ip) + of_nat (digits_val fp) / 10 ^ length fp;
                   (factor, r3) = parse_exponent r2
               in Some (mant * factor, r3)))"

definition parse_unsigned :: "string \<Rightarrow> (jsnum \<times> string) option" where
  "parse_unsigned s =
     (if take 8 s = ''Infinity'' then Some (PInf, drop 8 s)
      else map_option (\<lambda>(q, r). (Fin q, r)) (parse_decimal s))"

definition parse_signed :: "string \<Rightarrow> (jsnum \<times> string) option" where
  "parse_signed s =
     (case s of
        [] \<Rightarrow> None
      | c # t \<Rightarrow>
          if c = CHR ''-'' then map_option (\<lambda>(v, r). (js_neg v, r)) (parse_unsigned t)
          else if c = CHR ''+'' then parse_unsigned t
          else parse_unsigned s)"



definition hex_val :: "char \<Rightarrow> nat option" where
  "hex_val c =
     (let n = (of_char c :: nat)
      in if 48 \<le> n \<and> n \<le> 57 then Some (n - 48)
         else if 97 \<le> n \<and> n \<le> 102 then Some (n - 87)
         else if 65 \<le> n \<and> n \<le> 70 then Some (n - 55)
         else None)"

definition parse_radix :: "nat \<Rightarrow> string \<Rightarrow> jsnum" where
  "parse_radix b ds =
     (if ds \<noteq> [] \<and> (\<forall>c \<in> set ds. case hex_val c of None \<Rightarrow> False | Some d \<Rightarrow> d < b)
      then Fin (of_nat (foldl (\<lambda>a c. a * b + the (hex_val c)) 0 ds))
      else NaN)"

definition trim :: "string \<Rightarrow> string" where
  "trim s = rev (dropWhile is_ws (rev (dropWhile is_ws s)))"

text \<open>
  The numeric value of a string, as the arithmetic and relational operators take it: the
  whole trimmed string has to be one literal, and the empty string is zero.
\<close>

definition StringToNumber :: "string \<Rightarrow> jsnum" where
  "StringToNumber s =
     (let t = trim s
      in if t = [] then Fin 0
         else if take 2 t = ''0x'' \<or> take 2 t = ''0X'' then parse_radix 16 (drop 2 t)
         else if take 2 t = ''0o'' \<or> take 2 t = ''0O'' then parse_radix 8 (drop 2 t)
         else if take 2 t = ''0b'' \<or> take 2 t = ''0B'' then parse_radix 2 (drop 2 t)
         else (case parse_signed t of
                 Some (v, []) \<Rightarrow> v
               | _ \<Rightarrow> NaN))"

fun ToNumber :: "jsval \<Rightarrow> jsnum" where
  "ToNumber JUndefined = NaN"
| "ToNumber JNull = Fin 0"
| "ToNumber (JBool b) = (if b then Fin 1 else Fin 0)"
| "ToNumber (JNum n) = n"
| "ToNumber (JStr s) = StringToNumber s"

text \<open>
  The binary operators on scalars. \<open>+\<close> concatenates as soon as one operand is a string;
  \<open><\<close> compares two strings by their code units and everything else numerically.
\<close>

definition js_minus :: "jsval \<Rightarrow> jsval \<Rightarrow> jsnum" where
  "js_minus a b = js_sub (ToNumber a) (ToNumber b)"

definition js_divide :: "jsval \<Rightarrow> jsval \<Rightarrow> jsnum" where
  "js_divide a b = js_div (ToNumber a) (ToNumber b)"



fun string_lt :: "string \<Rightarrow> string \<Rightarrow> bool" where
  "string_lt [] [] = False"
| "string_lt [] (y # ys) = True"
| "string_lt (x # xs) [] = False"
| "string_lt (x # xs) (y # ys) =
     ((of_char x :: nat) < of_char y \<or> (x = y \<and> string_lt xs ys))"

fun js_less :: "jsval \<Rightarrow> jsval \<Rightarrow> bool" where
  "js_less (JStr a) (JStr b) = string_lt a b"
| "js_less a b = js_lt (ToNumber a) (ToNumber b)"

section \<open>The document store manager (vectorstore/chromaManager.js)\<close>

text \<open>
  The fields of \<open>ChromaManager\<close> that its methods read and write. The handle is the
  client's collection object; \<open>None\<close> is \<open>null\<close>.
\<close>

datatype handle = Collection string

record manager =
  collectionName :: string
  isReady :: bool
  collection :: "handle option"

fun message :: "jserror \<Rightarrow> string" where
  "message (Error msg) = msg"
| "message (TypeError msg) = msg"

text \<open>\<open>s.includes(t)\<close>: \<open>t\<close> occurs in \<open>s\<close>.\<close>

fun str_includes :: "string \<Rightarrow> string \<Rightarrow> bool" where
  "str_includes [] t = (t = [])"
| "str_includes (x # xs) t = (take (length t) (x # xs) = t \<or> str_includes xs t)"

subsection \<open>Collection life cycle: \<open>initialize\<close> and \<open>ensureCollection\<close>\<close>

text \<open>
  The store client is a collaborator outside the sources, so it is a parameter: each of
  its calls maps the state of the remote store to an outcome (a rejection or a value) and
  the next state. \<open>listCollections\<close> yields the names of the listed collections. The calls
  a method makes are recorded in a log beside the remote state.
\<close>

record 's client =
  listCollections :: "'s \<Rightarrow> (jserror + string list) \<times> 's"
  getCollection :: "string \<Rightarrow> 's \<Rightarrow> (jserror + handle option) \<times> 's"
  createCollection :: "string \<Rightarrow> 's \<Rightarrow> (jserror + handle option) \<times> 's"

datatype call = ListCollections | GetCollection string | CreateCollection string

definition not_obtained :: string where
  "not_obtained = ''Collection olu'' @ [CHR 0xC5, CHR 0x9F] @ ''turulamad'' @ [CHR 0xC4, CHR 0xB1]
     @ '' veya al'' @ [CHR 0xC4, CHR 0xB1] @ ''namad'' @ [CHR 0xC4, CHR 0xB1]"

text \<open>The check after the branches: a \<open>null\<close> handle is an error.\<close>

definition verify_collection ::
  "manager \<Rightarrow> 's \<times> call list \<Rightarrow> (jserror + unit) \<times> manager \<times> ('s \<times> call list)" where
  "verify_collection m w =
     (if collection m = None then (Inl (Error not_obtained), m, w) else (Inr (), m, w))"

definition ensureCollection ::
  "'s client \<Rightarrow> manager \<Rightarrow> 's \<times> call list \<Rightarrow> (jserror + unit) \<times> manager \<times> ('s \<times> call list)" where
  "ensureCollection cl m w =
     (case listCollections cl (fst w) of
        (Inl error, s1) \<Rightarrow> (Inl error, m, (s1, snd w @ [ListCollections]))
      | (Inr collections, s1) \<Rightarrow>
          if collectionName m \<in> set collections then
            (case getCollection cl (collectionName m) s1 of
               (Inl getError, s2) \<Rightarrow>
                 (Inl getError, m,
                  (s2, snd w @ [ListCollections, GetCollection (collectionName m)]))
             | (Inr h, s2) \<Rightarrow>
                 verify_collection (m\<lparr>collection := h\<rparr>)
                   (s2, snd w @ [ListCollections, GetCollection (collectionName m)]))
          else
            (case createCollection cl (collectionName m) s1 of
               (Inr h, s2) \<Rightarrow>
                 verify_collection (m\<lparr>collection := h\<rparr>)
                   (s2, snd w @ [ListCollections, CreateCollection (collectionName m)])
             | (Inl createError, s2) \<Rightarrow>
                 if str_includes (message createError) ''already exists''
                    \<or> str_includes (message createError) ''resource already exists''
                 then
                   (case getCollection cl (collectionName m) s2 of
                      (Inl retryError, s3) \<Rightarrow>
                        (Inl retryError, m,
                         (s3, snd w @ [ListCollections, CreateCollection (collectionName m),
                                       GetCollection (collectionName m)]))
                    | (Inr h, s3) \<Rightarrow>
                        verify_collection (m\<lparr>collection := h\<rparr>)
                          (s3, snd w @ [ListCollections, CreateCollection (collectionName m),
                                        GetCollection (collectionName m)]))
                 else
                   (Inl createError, m,
                    (s2, snd w @ [ListCollections, CreateCollection (collectionName m)]))))"

definition initialize ::
  "'s client \<Rightarrow> manager \<Rightarrow> 's \<times> call list \<Rightarrow> (jserror + unit) \<times> manager \<times> ('s \<times> call list)" where
  "initialize cl m w =
     (case ensureCollection cl m w of
        (Inl error, m', w') \<Rightarrow> (Inl error, m', w')
      | (Inr u, m', w') \<Rightarrow> (Inr (), m'\<lparr>isReady := True\<rparr>, w'))"

text \<open>
  Modelled from the spec: the vector store service of section 6 (\<open>listCollections\<close>,
  \<open>createCollection(name, metadata)\<close>, \<open>getCollection(name)\<close>), a collaborator that is not
  in the sources, when no call fails for a reason of its own. The remote state is the
  list of the names of the collections that exist; creating an existing name is the
  conflict of section 4.3.
\<close>

definition store_client :: "string list client" where
  "store_client =
     \<lparr> listCollections = (\<lambda>s. (Inr s, s)),
       getCollection = (\<lambda>n s.
         (if n \<in> set s then Inr (Some (Collection n))
          else Inl (Error (''Collection '' @ n @ '' does not exist'')), s)),
       createCollection = (\<lambda>n s.
         if n \<in> set s then (Inl (Error (''Collection '' @ n @ '' already exists'')), s)
         else (Inr (Some (Collection n)), s @ [n])) \<rparr>"

subsection \<open>Document builder\<close>

definition nl :: string where
  "nl = [CHR 0x0A]"

text \<open>The two kinds of holes of the template: \<open>${record.k || 'd'}\<close> and \<open>${record.k}\<close>.\<close>

definition hole_or :: "jsobj \<Rightarrow> string \<Rightarrow> string \<Rightarrow> string" where
  "hole_or record k d = ToString (js_or (js_get record k) (JStr d))"

definition hole :: "jsobj \<Rightarrow> string \<Rightarrow> string" where
  "hole record k = ToString (js_get record k)"

definition createDocumentText :: "jsobj \<Rightarrow> string" where
  "createDocumentText record =
     ''Company: '' @ hole_or record ''Company'' ''Unknown'' @ nl @
     ''Ticker: '' @ hole_or record ''Ticker'' ''N/A'' @ nl @
     ''Peer Group: '' @ hole_or record ''Peer_group_root'' ''Unknown'' @ nl @
     ''Region: '' @ hole_or record ''Region'' ''Unknown'' @ nl @
     ''Country: '' @ hole_or record ''Country'' ''Unknown'' @ nl @
     ''Date: '' @ hole_or record ''Date'' ''Unknown'' @ nl @
     ''Total ESG Score: '' @ hole_or record ''total_esg_score'' ''N/A'' @ nl @
     ''Environmental Score: '' @ hole_or record ''environment_score'' ''N/A'' @ nl @
     ''Social Score: '' @ hole_or record ''social_score'' ''N/A'' @ nl @
     ''Governance Score: '' @ hole_or record ''governance_score'' ''N/A'' @ nl @
     ''Scaled Environmental Score: '' @ hole_or record ''scl_environment_score'' ''N/A'' @ nl @
     ''Scaled Social Score: '' @ hole_or record ''scl_social_score'' ''N/A'' @ nl @
     ''Scaled Governance Score: '' @ hole_or record ''scl_governance_score'' ''N/A'' @ nl @
     ''Weighted Environmental Score: '' @ hole_or record ''wght_environment_score'' ''N/A'' @ nl @
     ''Weighted Social Score: '' @ hole_or record ''wght_social_score'' ''N/A'' @ nl @
     ''Weighted Governance Score: '' @ hole_or record ''wght_governance_score'' ''N/A'' @ nl @
     nl @
     ''This company '' @ hole record ''Company'' @ '' ('' @ hole record ''Ticker'' @
     '') from the '' @ hole record ''Country'' @ '' in '' @ hole record ''Region'' @
     '' region has a total ESG performance score of '' @ hole record ''total_esg_score'' @
     ''. '' @ nl @
     ''The environmental performance score is '' @ hole record ''environment_score'' @
     '', social responsibility score is '' @ hole record ''social_score'' @
     '', and governance score is '' @ hole record ''governance_score'' @ ''.'' @ nl @
     ''The company belongs to the '' @ hole record ''Peer_group_root'' @
     '' peer group. The scaled scores are: Environmental '' @
     hole record ''scl_environment_score'' @ '', Social '' @ hole record ''scl_social_score'' @
     '', Governance '' @ hole record ''scl_governance_score'' @ ''.'' @ nl @
     ''The weighted scores are: Environmental '' @ hole record ''wght_environment_score'' @
     '', Social '' @ hole record ''wght_social_score'' @ '', Governance '' @
     hole record ''wght_governance_score'' @ ''.''"

text \<open>The metadata object literal and the id template of \<open>processBatch\<close>.\<close>

definition score_fields :: "string list" where
  "score_fields =
     [''total_esg_score'', ''environment_score'', ''social_score'', ''governance_score'',
      ''scl_environment_score'', ''scl_social_score'', ''scl_governance_score'',
      ''wght_environment_score'', ''wght_social_score'', ''wght_governance_score'']"

definition record_metadata :: "jsobj \<Rightarrow> jsobj" where
  "record_metadata record =
     [(''company'', js_or (js_get record ''Company'') (JStr ''Unknown'')),
      (''ticker'', js_or (js_get record ''Ticker'') (JStr [])),
      (''peer_group'', js_or (js_get record ''Peer_group_root'') (JStr ''Unknown'')),
      (''region'', js_or (js_get record ''Region'') (JStr ''Unknown'')),
      (''country'', js_or (js_get record ''Country'') (JStr ''Unknown'')),
      (''date'', js_or (js_get record ''Date'') (JNum (Fin 0))),
      (''total_esg_score'', js_or (js_get record ''total_esg_score'') (JNum (Fin 0))),
      (''environment_score'', js_or (js_get record ''environment_score'') (JNum (Fin 0))),
      (''social_score'', js_or (js_get record ''social_score'') (JNum (Fin 0))),
      (''governance_score'', js_or (js_get record ''governance_score'') (JNum (Fin 0))),
      (''scl_environment_score'', js_or (js_get record ''scl_environment_score'') (JNum (Fin 0))),
      (''scl_social_score'', js_or (js_get record ''scl_social_score'') (JNum (Fin 0))),
      (''scl_governance_score'', js_or (js_get record ''scl_governance_score'') (JNum (Fin 0))),
      (''wght_environment_score'', js_or (js_get record ''wght_environment_score'') (JNum (Fin 0))),
      (''wght_social_score'', js_or (js_get record ''wght_social_score'') (JNum (Fin 0))),
      (''wght_governance_score'', js_or (js_get record ''wght_governance_score'') (JNum (Fin 0))),
      (''record_type'', JStr ''esg_data'')]"

text \<open>\<open>`esg_${record.Ticker || 'unknown'}_${record.Date || startIndex + i}`\<close>, at \<open>n = startIndex + i\<close>.\<close>

definition record_id :: "jsobj \<Rightarrow> nat \<Rightarrow> string" where
  "record_id record n =
     ''esg_'' @ ToString (js_or (js_get record ''Ticker'') (JStr ''unknown'')) @ ''_'' @
     ToString (js_or (js_get record ''Date'') (JNum (Fin (of_nat n))))"

subsection \<open>Ingestion: \<open>processBatch\<close> and \<open>addESGData\<close>\<close>

text \<open>The documents of a remote collection: text and metadata, by id.\<close>

type_synonym collection_data = "(string \<times> (string \<times> jsobj)) list"

text \<open>
  Modelled from the spec: \<open>add(documents, metadatas, ids)\<close> on a collection of the vector
  store (section 6), a collaborator that is not in the sources. A collection holds one
  document per id; adding under an id that is present overwrites (section 8: id collision
  overwrites). Entry \<open>i\<close> of the three arrays is one document.
\<close>

definition collection_add ::
  "string list \<Rightarrow> jsobj list \<Rightarrow> string list \<Rightarrow> collection_data \<Rightarrow> collection_data" where
  "collection_add documents metadatas ids c =
     fold (\<lambda>(i, d, md). AList.update i (d, md)) (zip ids (zip documents metadatas)) c"

definition collection_count :: "collection_data \<Rightarrow> nat" where
  "collection_count c = length c"

text \<open>The loop of \<open>processBatch\<close>: one push to each of the three arrays per record.\<close>

fun processBatch_loop ::
  "jsobj list \<Rightarrow> nat \<Rightarrow> nat \<Rightarrow> string list \<times> jsobj list \<times> string list
     \<Rightarrow> string list \<times> jsobj list \<times> string list" where
  "processBatch_loop [] startIndex i arrays = arrays"
| "processBatch_loop (record # rest) startIndex i (documents, metadatas, ids) =
     processBatch_loop rest startIndex (Suc i)
       (documents @ [createDocumentText record],
        metadatas @ [record_metadata record],
        ids @ [record_id record (startIndex + i)])"

definition processBatch_arrays ::
  "jsobj list \<Rightarrow> nat \<Rightarrow> string list \<times> jsobj list \<times> string list" where
  "processBatch_arrays batch startIndex = processBatch_loop batch startIndex 0 ([], [], [])"

text \<open>
  \<open>processBatch\<close> on the remote collection \<open>c\<close> that the manager's handle stands for. With
  no handle, \<open>this.collection.add\<close> is a property read on \<open>null\<close>.
\<close>

definition processBatch ::
  "manager \<Rightarrow> jsobj list \<Rightarrow> nat \<Rightarrow> collection_data \<Rightarrow> jserror + collection_data" where
  "processBatch m batch startIndex c =
     (case processBatch_arrays batch startIndex of
        (documents, metadatas, ids) \<Rightarrow>
          (case collection m of
             None \<Rightarrow> Inl (TypeError ''Cannot read properties of null (reading add)'')
           | Some h \<Rightarrow> Inr (collection_add documents metadatas ids c)))"

definition not_ready :: string where
  "not_ready = ''ChromaDB hen'' @ [CHR 0xC3, CHR 0xBC] @ ''z haz'' @ [CHR 0xC4, CHR 0xB1]
     @ ''r de'' @ [CHR 0xC4, CHR 0x9F] @ ''il''"

definition batchSize :: nat where
  "batchSize = 1000"

text \<open>
  The batch loop of \<open>addESGData\<close>, for a batch size \<open>bs\<close> (the source fixes 1000). A step
  of zero never advances: the loop does not return, which is \<open>None\<close>.
\<close>

function addESGData_loop ::
  "nat \<Rightarrow> manager \<Rightarrow> jsobj list \<Rightarrow> nat \<Rightarrow> collection_data
     \<Rightarrow> (jserror + collection_data) option" where
  "addESGData_loop bs m data i c =
     (if i < length data then
        (case processBatch m (take bs (drop i data)) i c of
           Inl e \<Rightarrow> Some (Inl e)
         | Inr c' \<Rightarrow> if bs = 0 then None else addESGData_loop bs m data (i + bs) c')
      else Some (Inr c))"
  by pat_completeness auto
termination
  by (relation "measure (\<lambda>(bs, m, data, i, c). length data - i)") auto

declare addESGData_loop.simps [simp del]

text \<open>
  \<open>addESGData\<close>, from the outcome of reading and parsing the CSV file (the rows, each an
  object of its cells, or the error of the file system).
\<close>

definition addESGData ::
  "manager \<Rightarrow> jserror + jsobj list \<Rightarrow> collection_data
     \<Rightarrow> (jserror + collection_data) option" where
  "addESGData m parsed c =
     (if \<not> isReady m then Some (Inl (Error not_ready))
      else (case parsed of
              Inl error \<Rightarrow> Some (Inl error)
            | Inr data \<Rightarrow> addESGData_loop batchSize m data 0 c))"

subsection \<open>Retrieval: \<open>searchSimilar\<close> and its wrappers\<close>

text \<open>The \<open>where\<close> filters the wrappers build.\<close>

datatype where_clause =
    NoFilter
  | WEq string jsval
  | WContains string jsval
  | WOr "where_clause list"

text \<open>
  What \<open>collection.query\<close> resolves to, for the one query text sent: the lists
  \<open>results.documents[0]\<close>, \<open>results.metadatas[0]\<close> and \<open>results.distances[0]\<close>. A metadata
  entry may be \<open>null\<close>; \<open>None\<close> stands for \<open>null\<close> and for \<open>undefined\<close>, which no code here tells
  apart.
\<close>

record query_result =
  documents :: "jsval list"
  metadatas :: "jsobj option list"
  distances :: "jsnum list"

record hit =
  document :: jsval
  metadata :: "jsobj option"
  distance :: jsval
  similarity :: jsnum

record search_options =
  nResults :: "nat option"
  whereFilter :: "where_clause option"

record search_result =
  query :: string
  results :: "hit list"

text \<open>The store's \<open>query\<close> (query text, \<open>nResults\<close>, \<open>where\<close>), a collaborator: a parameter.\<close>

type_synonym query_fn = "string \<Rightarrow> nat \<Rightarrow> where_clause \<Rightarrow> jserror + query_result"

text \<open>An index read: past the end of an array it is \<open>undefined\<close>.\<close>

definition distance_at :: "jsnum list \<Rightarrow> nat \<Rightarrow> jsval" where
  "distance_at ds i = (if i < length ds then JNum (ds ! i) else JUndefined)"

definition metadata_at :: "jsobj option list \<Rightarrow> nat \<Rightarrow> jsobj option" where
  "metadata_at ms i = (if i < length ms then ms ! i else None)"

definition hits_of :: "query_result \<Rightarrow> hit list" where
  "hits_of r =
     map (\<lambda>(i, doc).
            \<lparr> document = doc,
              metadata = metadata_at (metadatas r) i,
              distance = distance_at (distances r) i,
              similarity = js_minus (JNum (Fin 1)) (distance_at (distances r) i) \<rparr>)
         (enumerate 0 (documents r))"

definition searchSimilar ::
  "manager \<Rightarrow> query_fn \<Rightarrow> string \<Rightarrow> search_options \<Rightarrow> jserror + search_result" where
  "searchSimilar m store q options =
     (if \<not> isReady m then Inl (Error not_ready)
      else (case collection m of
              None \<Rightarrow> Inl (TypeError ''Cannot read properties of null (reading query)'')
            | Some h \<Rightarrow>
                (case store q (case nResults options of None \<Rightarrow> 10 | Some n \<Rightarrow> n)
                              (case whereFilter options of None \<Rightarrow> NoFilter | Some w \<Rightarrow> w) of
                   Inl error \<Rightarrow> Inl error
                 | Inr r \<Rightarrow> Inr \<lparr> query = q, results = hits_of r \<rparr>)))"

text \<open>\<open>toUpperCase\<close>, on the ASCII letters.\<close>

definition toUpperCase :: "string \<Rightarrow> string" where
  "toUpperCase s =
     map (\<lambda>c. if 97 \<le> (of_char c :: nat) \<and> (of_char c :: nat) \<le> 122
               then char_of ((of_char c :: nat) - 32) else c) s"

definition searchByCompany ::
  "manager \<Rightarrow> query_fn \<Rightarrow> string \<Rightarrow> search_options \<Rightarrow> jserror + search_result" where
  "searchByCompany m store companyName options =
     searchSimilar m store (companyName @ '' ESG performance'')
       (options\<lparr>whereFilter := Some (WOr [WEq ''company'' (JStr companyName),
                                           WContains ''company'' (JStr companyName),
                                           WEq ''ticker'' (JStr (toUpperCase companyName))])\<rparr>)"

definition searchByTicker ::
  "manager \<Rightarrow> query_fn \<Rightarrow> string \<Rightarrow> search_options \<Rightarrow> jserror + search_result" where
  "searchByTicker m store ticker options =
     searchSimilar m store (ticker @ '' stock ESG analysis'')
       (options\<lparr>whereFilter := Some (WEq ''ticker'' (JStr (toUpperCase ticker)))\<rparr>)"

definition searchByRegion ::
  "manager \<Rightarrow> query_fn \<Rightarrow> string \<Rightarrow> search_options \<Rightarrow> jserror + search_result" where
  "searchByRegion m store region options =
     searchSimilar m store (region @ '' region ESG analysis'')
       (options\<lparr>whereFilter := Some (WEq ''region'' (JStr region))\<rparr>)"

definition searchByCountry ::
  "manager \<Rightarrow> query_fn \<Rightarrow> string \<Rightarrow> search_options \<Rightarrow> jserror + search_result" where
  "searchByCountry m store country options =
     searchSimilar m store (country @ '' country ESG performance'')
       (options\<lparr>whereFilter := Some (WEq ''country'' (JStr country))\<rparr>)"

definition searchBySector ::
  "manager \<Rightarrow> query_fn \<Rightarrow> string \<Rightarrow> search_options \<Rightarrow> jserror + search_result" where
  "searchBySector m store sector options =
     searchSimilar m store (sector @ '' sector ESG analysis'')
       (options\<lparr>whereFilter := Some (WEq ''peer_group'' (JStr sector))\<rparr>)"

text \<open>The relation \<open><=\<close> on numbers, in which hits are ordered.\<close>

definition js_le :: "jsnum \<Rightarrow> jsnum \<Rightarrow> bool" where
  "js_le a b = (a \<noteq> NaN \<and> b \<noteq> NaN \<and> \<not> js_lt b a)"

subsection \<open>Grouping: \<open>getESGTrends\<close>\<close>






section \<open>The ESG analyzer tool (agents/tools/esgAnalyzer.js)\<close>




definition Yuksek :: string where
  "Yuksek = ''Y'' @ [CHR 0xC3, CHR 0xBC] @ ''ksek''"

definition Orta :: string where
  "Orta = ''Orta''"

definition Dusuk :: string where
  "Dusuk = ''D'' @ [CHR 0xC3, CHR 0xBC, CHR 0xC5, CHR 0x9F, CHR 0xC3, CHR 0xBC] @ ''k''"

definition Cevresel_Risk :: string where
  "Cevresel_Risk = [CHR 0xC3, CHR 0x87] @ ''evresel Risk''"

definition Sosyal_Risk :: string where
  "Sosyal_Risk = ''Sosyal Risk''"

definition Yonetisim_Riski :: string where
  "Yonetisim_Riski = ''Y'' @ [CHR 0xC3, CHR 0xB6] @ ''neti'' @ [CHR 0xC5, CHR 0x9F] @ ''im Riski''"

subsection \<open>\<open>calculateTrends\<close>\<close>





subsection \<open>\<open>assessRisks\<close>\<close>

record risk =
  rtype :: string
  level :: string
  description :: string

record risk_assessment =
  riskLevel :: string
  risks :: "risk list"
  totalRiskCount :: nat

definition array_at :: "'a list \<Rightarrow> int \<Rightarrow> 'a option" where
  "array_at xs i = (if 0 \<le> i \<and> i < int (length xs) then Some (xs ! nat i) else None)"

text \<open>\<open>data[data.length - 1] || data[0]\<close>, on an array of objects.\<close>

definition latestData :: "jsobj list \<Rightarrow> jsobj option" where
  "latestData data =
     (case array_at data (int (length data) - 1) of
        Some d \<Rightarrow> Some d
      | None \<Rightarrow> array_at data 0)"

text \<open>\<open>latestData?.k\<close>\<close>

definition opt_get :: "jsobj option \<Rightarrow> string \<Rightarrow> jsval" where
  "opt_get ob k = (case ob of None \<Rightarrow> JUndefined | Some d \<Rightarrow> js_get d k)"

definition assessRisks :: "jsobj list \<Rightarrow> risk_assessment" where
  "assessRisks data =
     (let ld = latestData data;
          rs = (if js_less (opt_get ld ''environment_score'') (JNum (Fin 40))
                then [\<lparr> rtype = Cevresel_Risk, level = Yuksek,
                        description = ''D'' @ [CHR 0xC3, CHR 0xBC, CHR 0xC5, CHR 0x9F, CHR 0xC3, CHR 0xBC]
                          @ ''k '' @ [CHR 0xC3, CHR 0xA7] @ ''evresel performans skoru'' \<rparr>]
                else [])
             @ (if js_less (opt_get ld ''social_score'') (JNum (Fin 40))
                then [\<lparr> rtype = Sosyal_Risk, level = Yuksek,
                        description = ''D'' @ [CHR 0xC3, CHR 0xBC, CHR 0xC5, CHR 0x9F, CHR 0xC3, CHR 0xBC]
                          @ ''k sosyal sorumluluk skoru'' \<rparr>]
                else [])
             @ (if js_less (opt_get ld ''governance_score'') (JNum (Fin 40))
                then [\<lparr> rtype = Yonetisim_Riski, level = Yuksek,
                        description = ''D'' @ [CHR 0xC3, CHR 0xBC, CHR 0xC5, CHR 0x9F, CHR 0xC3, CHR 0xBC]
                          @ ''k kurumsal y'' @ [CHR 0xC3, CHR 0xB6] @ ''netim skoru'' \<rparr>]
                else [])
      in \<lparr> riskLevel = (if length rs > 2 then Yuksek else if length rs > 0 then Orta else Dusuk),
           risks = rs,
           totalRiskCount = length rs \<rparr>)"

section \<open>The market analyzer tool (agents/tools/marketAnalyzer.js)\<close>

text \<open>
  \<open>Array.prototype.sort\<close> with a comparator: a stable sort, in which \<open>a\<close> goes behind \<open>b\<close>
  exactly when \<open>compare(a, b) > 0\<close>. Every stable sort returns the same array when the
  comparator is a consistent order, so the engine's algorithm is written as an insertion
  sort.
\<close>

fun insert_by :: "('a \<Rightarrow> 'a \<Rightarrow> jsnum) \<Rightarrow> 'a \<Rightarrow> 'a list \<Rightarrow> 'a list" where
  "insert_by cmp x [] = [x]"
| "insert_by cmp x (y # ys) =
     (if js_gt (cmp x y) (Fin 0) then y # insert_by cmp x ys else x # y # ys)"

definition array_sort :: "('a \<Rightarrow> 'a \<Rightarrow> jsnum) \<Rightarrow> 'a list \<Rightarrow> 'a list" where
  "array_sort cmp xs = foldr (insert_by cmp) xs []"

record performer =
  company :: jsval
  score :: jsnum
  sector :: jsval





section \<open>Auxiliary notions for the statements\<close>

text \<open>A proper number (not \<open>NaN\<close>), as opposed to any other scalar.\<close>

fun is_numeric :: "jsval \<Rightarrow> bool" where
  "is_numeric (JNum n) = (n \<noteq> NaN)"
| "is_numeric v = False"

text \<open>
  The effect of ingesting the records \<open>rs\<close>, the first of which has the global position
  \<open>i\<close>, in closed form: each record is written under the id of its global position.
\<close>

definition ingest_records :: "jsobj list \<Rightarrow> nat \<Rightarrow> collection_data \<Rightarrow> collection_data" where
  "ingest_records rs i c =
     fold (\<lambda>(j, r). AList.update (record_id r j) (createDocumentText r, record_metadata r))
          (enumerate i rs) c"


text \<open>The test that sends a failed \<open>createCollection\<close> to the fallback.\<close>

definition conflict :: "jserror \<Rightarrow> bool" where
  "conflict e = (str_includes (message e) ''already exists''
                 \<or> str_includes (message e) ''resource already exists'')"

section \<open>Properties of ingestion\<close>

lemma processBatch_loop_eq:
  "processBatch_loop batch s i (ds, ms, js) =
     (ds @ map createDocumentText batch, ms @ map record_metadata batch,
      js @ map (\<lambda>(j, r). record_id r (s + j)) (enumerate i batch))"
  by (induction batch arbitrary: i ds ms js) simp_all

lemma processBatch_arrays_eq:
  "processBatch_arrays batch s =
     (map createDocumentText batch, map record_metadata batch,
      map (\<lambda>(j, r). record_id r (s + j)) (enumerate 0 batch))"
  by (simp add: processBatch_arrays_def processBatch_loop_eq)

lemma zip_arrays:
  "zip (map (\<lambda>(j, r). record_id r (s + j)) (enumerate i batch))
       (zip (map createDocumentText batch) (map record_metadata batch))
   = map (\<lambda>(j, r). (record_id r (s + j), createDocumentText r, record_metadata r))
         (enumerate i batch)"
  by (induction batch arbitrary: i) simp_all

lemma fold_arrays:
  "fold (\<lambda>(i, d, md). AList.update i (d, md))
        (map (\<lambda>(j, r). (record_id r (s + j), createDocumentText r, record_metadata r))
             (enumerate i batch)) c
   = ingest_records batch (s + i) c"
  by (induction batch arbitrary: i c) (simp_all add: ingest_records_def)

lemma collection_add_arrays:
  "collection_add (map createDocumentText batch) (map record_metadata batch)
     (map (\<lambda>(j, r). record_id r (s + j)) (enumerate 0 batch)) c = ingest_records batch s c"
  unfolding collection_add_def zip_arrays fold_arrays by simp

lemma processBatch_ingest:
  "collection m = Some h \<Longrightarrow> processBatch m batch s c = Inr (ingest_records batch s c)"
  by (simp add: processBatch_def processBatch_arrays_eq collection_add_arrays)

lemma ingest_records_append:
  "ingest_records (xs @ ys) i c = ingest_records ys (i + length xs) (ingest_records xs i c)"
  by (simp add: ingest_records_def enumerate_append_eq)

lemma ingest_records_Nil [simp]: "ingest_records [] i c = c"
  by (simp add: ingest_records_def)

lemma addESGData_loop_ingest:
  assumes "0 < bs" "collection m = Some h"
  shows "addESGData_loop bs m data i c = Some (Inr (ingest_records (drop i data) i c))"
  using assms
proof (induction bs m data i c rule: addESGData_loop.induct)
  case (1 bs m data i c)
  show ?case
  proof (cases "i < length data")
    case False
    then show ?thesis by (simp add: addESGData_loop.simps)
  next
    case True
    let ?b = "take bs (drop i data)"
    have pb: "processBatch m ?b i c = Inr (ingest_records ?b i c)"
      using "1.prems" by (simp add: processBatch_ingest)
    have ih: "addESGData_loop bs m data (i + bs) (ingest_records ?b i c)
              = Some (Inr (ingest_records (drop (i + bs) data) (i + bs) (ingest_records ?b i c)))"
      using "1.IH"[OF True pb] "1.prems" by simp
    have split: "drop i data = ?b @ drop (i + bs) data"
      by (metis append_take_drop_id drop_drop add.commute)
    have "ingest_records (drop i data) i c
          = ingest_records (drop (i + bs) data) (i + length ?b) (ingest_records ?b i c)"
      using ingest_records_append[of ?b "drop (i + bs) data" i c] split by simp
    also have "\<dots> = ingest_records (drop (i + bs) data) (i + bs) (ingest_records ?b i c)"
    proof (cases "i + bs \<le> length data")
      case True
      then show ?thesis by (simp add: min_def)
    next
      case False
      then show ?thesis by simp
    qed
    finally show ?thesis
      using True pb ih "1.prems" by (subst addESGData_loop.simps) simp
  qed
qed

lemma ingest_records_keys:
  "fst ` set (ingest_records rs i c) = fst ` set c \<union> (\<lambda>(j, r). record_id r j) ` set (enumerate i rs)"
proof (induction rs arbitrary: i c)
  case Nil
  then show ?case by simp
next
  case (Cons r rs)
  have "ingest_records (r # rs) i c
        = ingest_records rs (Suc i) (AList.update (record_id r i) (createDocumentText r, record_metadata r) c)"
    by (simp add: ingest_records_def)
  then show ?case
    using Cons.IH[of "Suc i"] by (auto simp: dom_update)
qed

subsection \<open>Metadata defaults\<close>


lemma js_get_Cons: "js_get ((k', v) # ob) k = (if k = k' then v else js_get ob k)"
  by (simp add: js_get_def)

lemma score_field_metadata:
  "k \<in> set score_fields \<Longrightarrow> js_get (record_metadata r) k = js_or (js_get r k) (JNum (Fin 0))"
  unfolding score_fields_def record_metadata_def
  by (elim disjE | simp only: set_simps insert_iff empty_iff)+ (simp_all add: js_get_Cons)

lemma record_type_metadata: "js_get (record_metadata r) ''record_type'' = JStr ''esg_data''"
  by (simp add: record_metadata_def js_get_Cons)

text \<open>
  C9, as the code has it. For every ingested record and every score field, the metadata
  written by \<open>processBatch\<close> holds 0 whenever the record's value for the field is missing or
  otherwise falsy (\<open>undefined\<close>, \<open>null\<close>, \<open>NaN\<close>, 0, the empty string, \<open>false\<close>) and holds the
  record's value unchanged whenever it is truthy; a number therefore stays a number, and
  a non-empty string that is no number is stored as it is. The metadata always contains
  \<open>record_type = "esg_data"\<close>.
\<close>

theorem C9_metadata_defaults:
  assumes "processBatch_arrays batch startIndex = (docs, metas, ids)"
    and "i < length batch" and "k \<in> set score_fields"
  shows "js_get (metas ! i) k =
           (if truthy (js_get (batch ! i) k) then js_get (batch ! i) k else JNum (Fin 0))
         \<and> (js_get (batch ! i) k \<in> {JUndefined, JNull, JNum NaN, JNum (Fin 0), JStr [], JBool False}
              \<longrightarrow> js_get (metas ! i) k = JNum (Fin 0))
         \<and> (is_numeric (js_get (batch ! i) k) \<longrightarrow> is_numeric (js_get (metas ! i) k))
         \<and> js_get (metas ! i) ''record_type'' = JStr ''esg_data''"
proof -
  have metas: "metas = map record_metadata batch"
    using assms(1) by (simp add: processBatch_arrays_eq)
  have eq: "js_get (metas ! i) k =
           (if truthy (js_get (batch ! i) k) then js_get (batch ! i) k else JNum (Fin 0))"
    using assms(2,3) by (simp add: metas score_field_metadata js_or_def)
  have num: "is_numeric (js_get (batch ! i) k) \<longrightarrow> is_numeric (js_get (metas ! i) k)"
    unfolding eq by (cases "js_get (batch ! i) k") auto
  have falsy: "js_get (batch ! i) k \<in> {JUndefined, JNull, JNum NaN, JNum (Fin 0), JStr [], JBool False}
              \<longrightarrow> js_get (metas ! i) k = JNum (Fin 0)"
    unfolding eq by auto
  have "js_get (metas ! i) ''record_type'' = JStr ''esg_data''"
    using assms(2) by (simp add: metas record_type_metadata)
  with eq num falsy show ?thesis by blast
qed

theorem C9_metadata_defaults_witness:
  "js_get (fst (snd (processBatch_arrays [ [(''Ticker'', JStr ''A''), (''social_score'', JNull)] ] 0)) ! 0) ''social_score''
     = JNum (Fin 0)
   \<and> js_get (fst (snd (processBatch_arrays [ [(''Ticker'', JStr ''A''), (''social_score'', JNull)] ] 0)) ! 0) ''record_type''
     = JStr ''esg_data''"
proof -
  let ?b = "[ [(''Ticker'', JStr ''A''), (''social_score'', JNull)] ]"
  have h1: "processBatch_arrays ?b 0 = (fst (processBatch_arrays ?b 0), fst (snd (processBatch_arrays ?b 0)), snd (snd (processBatch_arrays ?b 0)))"
    by simp
  have h2: "(0::nat) < length ?b" by simp
  have h3: "''social_score'' \<in> set score_fields" by (simp add: score_fields_def)
  have v: "js_get (?b ! 0) ''social_score'' = JNull" by (simp add: js_get_Cons)
  show ?thesis
    using C9_metadata_defaults[OF h1 h2 h3] v by simp
qed

text \<open>
  A cell \<open>"N/A"\<close> in a score column is missing data that is no number, and it is truthy:
  the metadata of the record holds the string, not 0.
\<close>

theorem C9_nonnumeric_kept_counterexample:
  "''total_esg_score'' \<in> set score_fields
   \<and> \<not> is_numeric (js_get [(''total_esg_score'', JStr ''N/A'')] ''total_esg_score'')
   \<and> map (\<lambda>md. js_get md ''total_esg_score'')
          (fst (snd (processBatch_arrays [ [(''total_esg_score'', JStr ''N/A'')] ] 0))) = [JStr ''N/A'']
   \<and> JStr ''N/A'' \<noteq> JNum (Fin 0)"
proof -
  have a: "''total_esg_score'' \<in> set score_fields" by (simp add: score_fields_def)
  have b: "js_get [(''total_esg_score'', JStr ''N/A'')] ''total_esg_score'' = JStr ''N/A''"
    by (simp add: js_get_Cons)
  have c: "js_get (record_metadata [(''total_esg_score'', JStr ''N/A'')]) ''total_esg_score'' = JStr ''N/A''"
    by (simp add: score_field_metadata[OF a] b js_or_def)
  show ?thesis using a b c by (simp add: processBatch_arrays_eq)
qed

subsection \<open>Index alignment, ids and batching\<close>

text \<open>
  C4. For every batch and start index, the three arrays that \<open>processBatch\<close> builds have
  the length of the batch, the record at position \<open>i\<close> contributes exactly the entry at
  position \<open>i\<close> of each of them (its text, its metadata, its id), and with a collection
  handle the method hands these three arrays to the collection in one \<open>add\<close>.
\<close>

theorem C4_arrays_aligned:
  assumes "processBatch_arrays batch startIndex = (docs, metas, ids)"
  shows "length docs = length batch \<and> length metas = length batch \<and> length ids = length batch
         \<and> (\<forall>i < length batch.
               docs ! i = createDocumentText (batch ! i)
             \<and> metas ! i = record_metadata (batch ! i)
             \<and> ids ! i = record_id (batch ! i) (startIndex + i))
         \<and> (collection m = Some h \<longrightarrow>
               processBatch m batch startIndex c = Inr (collection_add docs metas ids c))"
proof -
  have eqs: "docs = map createDocumentText batch" "metas = map record_metadata batch"
    "ids = map (\<lambda>(j, r). record_id r (startIndex + j)) (enumerate 0 batch)"
    using assms by (simp_all add: processBatch_arrays_eq)
  have "\<forall>i < length batch. ids ! i = record_id (batch ! i) (startIndex + i)"
    by (simp add: eqs nth_enumerate_eq)
  moreover have "collection m = Some h \<longrightarrow>
               processBatch m batch startIndex c = Inr (collection_add docs metas ids c)"
    using assms by (simp add: processBatch_def)
  ultimately show ?thesis by (simp add: eqs)
qed

theorem C4_arrays_aligned_witness:
  "length (fst (processBatch_arrays [ [(''Ticker'', JStr ''A''), (''Date'', JStr ''2020'')], [] ] 5)) = 2
   \<and> length (fst (snd (processBatch_arrays [ [(''Ticker'', JStr ''A''), (''Date'', JStr ''2020'')], [] ] 5))) = 2
   \<and> snd (snd (processBatch_arrays [ [(''Ticker'', JStr ''A''), (''Date'', JStr ''2020'')], [] ] 5))
       = [''esg_A_2020'', ''esg_unknown_6'']
   \<and> fst (snd (processBatch_arrays [ [(''Ticker'', JStr ''A''), (''Date'', JStr ''2020'')], [] ] 5)) ! 1
       = record_metadata []
   \<and> processBatch \<lparr>collectionName = ''esg'', isReady = True, collection = Some (Collection ''esg'')\<rparr>
        [ [(''Ticker'', JStr ''A''), (''Date'', JStr ''2020'')], [] ] 5 []
       = Inr (collection_add
               (fst (processBatch_arrays [ [(''Ticker'', JStr ''A''), (''Date'', JStr ''2020'')], [] ] 5))
               (fst (snd (processBatch_arrays [ [(''Ticker'', JStr ''A''), (''Date'', JStr ''2020'')], [] ] 5)))
               [''esg_A_2020'', ''esg_unknown_6''] [])"
proof -
  let ?b = "[ [(''Ticker'', JStr ''A''), (''Date'', JStr ''2020'')], [] ] :: jsobj list"
  let ?p = "processBatch_arrays ?b 5"
  have h: "?p = (fst ?p, fst (snd ?p), snd (snd ?p))" by simp
  note t = C4_arrays_aligned[OF h, of \<open>\<lparr>collectionName = ''esg'', isReady = True, collection = Some (Collection ''esg'')\<rparr>\<close> "Collection ''esg''" "[]"]
  have i0: "snd (snd ?p) ! 0 = record_id (?b ! 0) (5 + 0)" and i1: "snd (snd ?p) ! 1 = record_id (?b ! 1) (5 + 1)"
    and m1: "fst (snd ?p) ! 1 = record_metadata (?b ! 1)"
    using t by simp_all
  have r0: "record_id (?b ! 0) (5 + 0) = ''esg_A_2020''"
    by (simp add: record_id_def js_get_Cons js_or_def)
  have r1: "record_id (?b ! 1) (5 + 1) = ''esg_unknown_6''"
    by code_simp
  have len: "length (snd (snd ?p)) = 2" using t by simp
  have ids: "snd (snd ?p) = [''esg_A_2020'', ''esg_unknown_6'']"
    using len i0 i1 r0 r1 by (simp add: list_eq_iff_nth_eq less_Suc_eq numeral_2_eq_2)
  show ?thesis using t ids m1 by simp
qed

lemma ingest_records_single:
  "ingest_records [r] n c = AList.update (record_id r n) (createDocumentText r, record_metadata r) c"
  by (simp add: ingest_records_def)

lemma record_id_dated:
  "truthy (js_get r ''Date'') \<Longrightarrow>
     record_id r n = ''esg_'' @ ToString (js_or (js_get r ''Ticker'') (JStr ''unknown'')) @ ''_''
                      @ ToString (js_get r ''Date'')"
  by (simp add: record_id_def js_or_def)

lemma length_update_present: "k \<in> fst ` set al \<Longrightarrow> length (AList.update k v al) = length al"
  by (induction al) auto

text \<open>
  C2. The id of the record at position \<open>i\<close> of a batch is \<open>esg_\<close>, the ticker (or
  \<open>unknown\<close> when the record has none), \<open>_\<close>, and the date (or the start index plus \<open>i\<close> when
  the record has none), where a cell is taken as absent as \<open>||\<close> does: when it is falsy.
  Two records with the same ticker and the same date therefore get the same id wherever
  they stand, and ingesting both, in two calls or in one batch, leaves one document under
  that id: the second ingestion does not change the number of documents and replaces the
  document, and from the empty collection the count is exactly one.
\<close>

theorem C2_id_deterministic:
  assumes "js_get r ''Ticker'' = js_get r' ''Ticker''"
    and "js_get r ''Date'' = js_get r' ''Date''"
    and "truthy (js_get r ''Date'')"
    and "collection m = Some h"
  shows "(\<forall>i < length batch.
            snd (snd (processBatch_arrays batch s)) ! i
              = ''esg_'' @ ToString (js_or (js_get (batch ! i) ''Ticker'') (JStr ''unknown'')) @ ''_''
                @ ToString (js_or (js_get (batch ! i) ''Date'') (JNum (Fin (of_nat (s + i))))))
       \<and> record_id r' n' = record_id r n
       \<and> (\<exists>c1 c2. processBatch m [r] n c = Inr c1 \<and> processBatch m [r'] n' c1 = Inr c2
             \<and> collection_count c2 = collection_count c1
             \<and> map_of c2 (record_id r n) = Some (createDocumentText r', record_metadata r')
             \<and> (c = [] \<longrightarrow> collection_count c2 = 1))
       \<and> (\<exists>c3. processBatch m [r, r'] n [] = Inr c3 \<and> collection_count c3 = 1)"
proof -
  have ids: "\<forall>i < length batch.
            snd (snd (processBatch_arrays batch s)) ! i
              = ''esg_'' @ ToString (js_or (js_get (batch ! i) ''Ticker'') (JStr ''unknown'')) @ ''_''
                @ ToString (js_or (js_get (batch ! i) ''Date'') (JNum (Fin (of_nat (s + i)))))"
    by (simp add: processBatch_arrays_eq nth_enumerate_eq record_id_def)
  have same: "record_id r' k = record_id r n" for k
    using assms(1,2,3) by (simp add: record_id_dated)
  let ?k = "record_id r n"
  let ?c1 = "AList.update ?k (createDocumentText r, record_metadata r) c"
  let ?c2 = "AList.update ?k (createDocumentText r', record_metadata r') ?c1"
  have p1: "processBatch m [r] n c = Inr ?c1"
    using assms(4) by (simp add: processBatch_ingest ingest_records_single)
  have p2: "processBatch m [r'] n' ?c1 = Inr ?c2"
    using assms(4) by (simp add: processBatch_ingest ingest_records_single same)
  have k1: "?k \<in> fst ` set ?c1" by (simp add: dom_update)
  have cnt: "collection_count ?c2 = collection_count ?c1"
    unfolding collection_count_def using k1 by (rule length_update_present)
  have look: "map_of ?c2 ?k = Some (createDocumentText r', record_metadata r')"
    by (simp add: update_conv')
  have one: "c = [] \<longrightarrow> collection_count ?c2 = 1"
    by (simp add: collection_count_def)
  have p3: "processBatch m [r, r'] n [] = Inr (AList.update ?k (createDocumentText r', record_metadata r')
               (AList.update ?k (createDocumentText r, record_metadata r) []))"
    using assms(4) by (simp add: processBatch_ingest ingest_records_def same)
  have c3: "\<exists>c3. processBatch m [r, r'] n [] = Inr c3 \<and> collection_count c3 = 1"
    unfolding p3 by (simp add: collection_count_def)
  from ids same p1 p2 cnt look one c3 show ?thesis by blast
qed

theorem C2_id_deterministic_witness:
  "snd (snd (processBatch_arrays [ [(''Ticker'', JStr ''A''), (''Date'', JStr ''2020''), (''social_score'', JNum (Fin 1))] ] 3)) ! 0
     = ''esg_A_2020''
   \<and> record_id [(''Ticker'', JStr ''A''), (''Date'', JStr ''2020''), (''social_score'', JNum (Fin 2))] 7
     = record_id [(''Ticker'', JStr ''A''), (''Date'', JStr ''2020''), (''social_score'', JNum (Fin 1))] 0
   \<and> (\<exists>c1 c2.
         processBatch \<lparr>collectionName = ''esg'', isReady = True, collection = Some (Collection ''esg'')\<rparr>
           [ [(''Ticker'', JStr ''A''), (''Date'', JStr ''2020''), (''social_score'', JNum (Fin 1))] ] 0 [] = Inr c1
       \<and> processBatch \<lparr>collectionName = ''esg'', isReady = True, collection = Some (Collection ''esg'')\<rparr>
           [ [(''Ticker'', JStr ''A''), (''Date'', JStr ''2020''), (''social_score'', JNum (Fin 2))] ] 7 c1 = Inr c2
       \<and> collection_count c2 = 1)"
proof -
  let ?r = "[(''Ticker'', JStr ''A''), (''Date'', JStr ''2020''), (''social_score'', JNum (Fin 1))] :: jsobj"
  let ?r' = "[(''Ticker'', JStr ''A''), (''Date'', JStr ''2020''), (''social_score'', JNum (Fin 2))] :: jsobj"
  let ?m = "\<lparr>collectionName = ''esg'', isReady = True, collection = Some (Collection ''esg'')\<rparr>"
  have h1: "js_get ?r ''Ticker'' = js_get ?r' ''Ticker''" by (simp add: js_get_Cons)
  have h2: "js_get ?r ''Date'' = js_get ?r' ''Date''" by (simp add: js_get_Cons)
  have h3: "truthy (js_get ?r ''Date'')" by (simp add: js_get_Cons)
  have h4: "collection ?m = Some (Collection ''esg'')" by simp
  note t = C2_id_deterministic[OF h1 h2 h3 h4, of "[?r]" 3 7 0 "[]"]
  have i0: "snd (snd (processBatch_arrays [?r] 3)) ! 0 = ''esg_A_2020''"
    using t by (simp add: js_get_Cons js_or_def)
  show ?thesis using t i0 by blast
qed

lemma enumerate_image:
  "(\<lambda>(j, r). f r j) ` set (enumerate 0 xs) = (\<lambda>j. f (xs ! j) j) ` {..<length xs}"
  by (auto simp: in_set_enumerate_eq image_iff Bex_def)

text \<open>
  C5. For every list of records and every batch size \<open>bs > 0\<close>, the batch loop of
  \<open>addESGData\<close> returns, and it returns the collection that one \<open>processBatch\<close> over all
  records from start index 0 returns: the ids written are those of the global positions
  of the records, whatever the batch boundaries, so the set of ids and the document
  count are the same. The source's own batch size 1000 is one instance.
\<close>

theorem C5_batch_size_irrelevant:
  assumes "0 < bs" and "collection m = Some h"
  shows "\<exists>c'. addESGData_loop bs m data 0 c = Some (Inr c')
            \<and> processBatch m data 0 c = Inr c'
            \<and> fst ` set c' = fst ` set c \<union> (\<lambda>j. record_id (data ! j) j) ` {..<length data}
            \<and> (isReady m \<longrightarrow> addESGData m (Inr data) c = Some (Inr c'))"
proof -
  let ?c' = "ingest_records data 0 c"
  have a: "addESGData_loop bs m data 0 c = Some (Inr ?c')"
    using addESGData_loop_ingest[OF assms, of data 0 c] by simp
  have b: "processBatch m data 0 c = Inr ?c'"
    using assms(2) by (rule processBatch_ingest)
  have k: "fst ` set ?c' = fst ` set c \<union> (\<lambda>j. record_id (data ! j) j) ` {..<length data}"
    by (simp add: ingest_records_keys enumerate_image)
  have d: "isReady m \<longrightarrow> addESGData m (Inr data) c = Some (Inr ?c')"
    using addESGData_loop_ingest[OF _ assms(2), of batchSize data 0 c]
    by (simp add: addESGData_def batchSize_def)
  from a b k d show ?thesis by blast
qed

theorem C5_batch_size_irrelevant_witness:
  "addESGData_loop 2 \<lparr>collectionName = ''esg'', isReady = True, collection = Some (Collection ''esg'')\<rparr>
      [ [(''Ticker'', JStr ''A'')], [(''Ticker'', JStr ''B'')], [(''Ticker'', JStr ''C'')] ] 0 []
    = Some (processBatch \<lparr>collectionName = ''esg'', isReady = True, collection = Some (Collection ''esg'')\<rparr>
      [ [(''Ticker'', JStr ''A'')], [(''Ticker'', JStr ''B'')], [(''Ticker'', JStr ''C'')] ] 0 [])
   \<and> map_option (map_sum id (map fst))
        (addESGData_loop 2 \<lparr>collectionName = ''esg'', isReady = True, collection = Some (Collection ''esg'')\<rparr>
          [ [(''Ticker'', JStr ''A'')], [(''Ticker'', JStr ''B'')], [(''Ticker'', JStr ''C'')] ] 0 [])
      = Some (Inr [''esg_A_0'', ''esg_B_1'', ''esg_C_2''])"
proof -
  let ?m = "\<lparr>collectionName = ''esg'', isReady = True, collection = Some (Collection ''esg'')\<rparr>"
  let ?data = "[ [(''Ticker'', JStr ''A'')], [(''Ticker'', JStr ''B'')], [(''Ticker'', JStr ''C'')] ] :: jsobj list"
  have h1: "(0::nat) < 2" by simp
  have h2: "collection ?m = Some (Collection ''esg'')" by simp
  have eq: "addESGData_loop 2 ?m ?data 0 [] = Some (processBatch ?m ?data 0 [])"
    using C5_batch_size_irrelevant[OF h1 h2, of ?data "[]"] by auto
  have ids: "map_sum id (map fst) (processBatch ?m ?data 0 []) = Inr [''esg_A_0'', ''esg_B_1'', ''esg_C_2'']"
    by code_simp
  show ?thesis
    unfolding eq using ids by simp
qed

section \<open>Properties of retrieval\<close>

lemma length_hits_of: "length (hits_of r) = length (documents r)"
  by (simp add: hits_of_def)

lemma hits_of_nth:
  "i < length (documents r) \<Longrightarrow>
     hits_of r ! i = \<lparr> document = documents r ! i,
                      metadata = metadata_at (metadatas r) i,
                      distance = distance_at (distances r) i,
                      similarity = js_minus (JNum (Fin 1)) (distance_at (distances r) i) \<rparr>"
  by (simp add: hits_of_def nth_enumerate_eq)

lemma js_le_flip: "js_le (js_sub (Fin 1) b) (js_sub (Fin 1) a) = js_le a b"
  by (cases a; cases b) (simp_all add: js_le_def js_sub_def)

lemma similarities_aligned:
  assumes "length (distances r) = length (documents r)"
  shows "map similarity (hits_of r) = map (js_sub (Fin 1)) (distances r)"
proof (rule nth_equalityI)
  show "length (map similarity (hits_of r)) = length (map (js_sub (Fin 1)) (distances r))"
    using assms by (simp add: length_hits_of)
next
  fix i assume "i < length (map similarity (hits_of r))"
  then have i: "i < length (documents r)" by (simp add: length_hits_of)
  then show "map similarity (hits_of r) ! i = map (js_sub (Fin 1)) (distances r) ! i"
    using assms by (simp add: length_hits_of hits_of_nth distance_at_def js_minus_def)
qed

lemma similarities_sorted:
  assumes "length (distances r) = length (documents r)" and "sorted_wrt js_le (distances r)"
  shows "sorted_wrt (\<lambda>a b. js_le b a) (map similarity (hits_of r))"
  using assms(2) by (simp add: similarities_aligned[OF assms(1)] sorted_wrt_map js_le_flip)

lemma searchSimilar_Inr:
  "searchSimilar m store q options = Inr res \<Longrightarrow>
     \<exists>n w r. store q n w = Inr r \<and> res = \<lparr> query = q, results = hits_of r \<rparr>"
  by (auto simp: searchSimilar_def split: if_splits option.splits sum.splits)

lemma search_functions_Inr:
  assumes "f \<in> {searchSimilar, searchByCompany, searchByTicker, searchByRegion,
                 searchByCountry, searchBySector}"
    and "f m store q options = Inr res"
  shows "\<exists>q' n w r. store q' n w = Inr r \<and> results res = hits_of r"
proof -
  from assms(1) have "\<exists>q' options'. f m store q options = searchSimilar m store q' options'"
    unfolding searchByCompany_def searchByTicker_def searchByRegion_def searchByCountry_def
      searchBySector_def
    by (elim insertE emptyE) blast+
  then obtain q' options' where "searchSimilar m store q' options' = Inr res"
    using assms(2) by auto
  from searchSimilar_Inr[OF this] obtain n w r where "store q' n w = Inr r" "res = \<lparr> query = q', results = hits_of r \<rparr>"
    by blast
  then have "store q' n w = Inr r \<and> results res = hits_of r" by simp
  then show ?thesis by blast
qed

text \<open>
  C1. Whenever \<open>searchSimilar\<close> or one of the wrappers that delegate to it returns, the
  hits are those of one response \<open>r\<close> of the store: hit \<open>i\<close> carries the store's distance
  \<open>i\<close> and a similarity that is exactly one minus that distance, \<open>1 - d\<close> for every finite
  \<open>d\<close> with no clamping to the unit interval, and when the store returns a distance for
  every document and the distances ascend, the similarities of the hits do not increase.
\<close>

theorem C1_similarity:
  assumes "f \<in> {searchSimilar, searchByCompany, searchByTicker, searchByRegion,
                 searchByCountry, searchBySector}"
    and "f m store q options = Inr res"
  shows "\<exists>q' n w r.
           store q' n w = Inr r \<and> results res = hits_of r
         \<and> length (results res) = length (documents r)
         \<and> (\<forall>i < length (results res).
               distance (results res ! i) = distance_at (distances r) i
             \<and> similarity (results res ! i) = js_minus (JNum (Fin 1)) (distance (results res ! i))
             \<and> (\<forall>d. distance (results res ! i) = JNum (Fin d)
                      \<longrightarrow> similarity (results res ! i) = Fin (1 - d)))
         \<and> (length (distances r) = length (documents r) \<longrightarrow> sorted_wrt js_le (distances r)
               \<longrightarrow> sorted_wrt (\<lambda>a b. js_le b a) (map similarity (results res)))"
proof -
  from search_functions_Inr[OF assms] obtain q' n w r
    where st: "store q' n w = Inr r" and res: "results res = hits_of r" by blast
  have len: "length (results res) = length (documents r)"
    by (simp add: res length_hits_of)
  have each: "\<forall>i < length (results res).
               distance (results res ! i) = distance_at (distances r) i
             \<and> similarity (results res ! i) = js_minus (JNum (Fin 1)) (distance (results res ! i))
             \<and> (\<forall>d. distance (results res ! i) = JNum (Fin d)
                      \<longrightarrow> similarity (results res ! i) = Fin (1 - d))"
    by (simp add: res length_hits_of hits_of_nth js_minus_def js_sub_def)
  have ord: "length (distances r) = length (documents r) \<longrightarrow> sorted_wrt js_le (distances r)
               \<longrightarrow> sorted_wrt (\<lambda>a b. js_le b a) (map similarity (results res))"
    by (simp add: res similarities_sorted)
  from st res len each ord show ?thesis by blast
qed


theorem C1_similarity_witness:
  "searchByTicker \<lparr>collectionName = ''esg'', isReady = True, collection = Some (Collection ''esg'')\<rparr>
      (\<lambda>q n w. Inr \<lparr> documents = [JStr ''a'', JStr ''b''], metadatas = [None, None],
                         distances = [Fin (1 / 2), Fin 3] \<rparr>)
      ''aapl'' \<lparr> nResults = None, whereFilter = None \<rparr>
    = Inr \<lparr> query = ''aapl stock ESG analysis'',
            results = [\<lparr> document = JStr ''a'', metadata = None, distance = JNum (Fin (1 / 2)),
                          similarity = Fin (1 / 2) \<rparr>,
                       \<lparr> document = JStr ''b'', metadata = None, distance = JNum (Fin 3),
                          similarity = Fin (- 2) \<rparr>] \<rparr>
   \<and> sorted_wrt (\<lambda>a b. js_le b a) [Fin (1 / 2), Fin (- 2)]"
proof -
  let ?m = "\<lparr>collectionName = ''esg'', isReady = True, collection = Some (Collection ''esg'')\<rparr>"
  let ?r = "\<lparr> documents = [JStr ''a'', JStr ''b''], metadatas = [None, None],
                         distances = [Fin (1 / 2), Fin 3] \<rparr>"
  let ?store = "(\<lambda>q n w. Inr ?r) :: query_fn"
  let ?res = "\<lparr> query = ''aapl stock ESG analysis'',
            results = [\<lparr> document = JStr ''a'', metadata = None, distance = JNum (Fin (1 / 2)),
                          similarity = Fin (1 / 2) \<rparr>,
                       \<lparr> document = JStr ''b'', metadata = None, distance = JNum (Fin 3),
                          similarity = Fin (- 2) \<rparr>] \<rparr>"
  have h1: "searchByTicker \<in> {searchSimilar, searchByCompany, searchByTicker, searchByRegion,
                 searchByCountry, searchBySector}" by simp
  have h2: "searchByTicker ?m ?store ''aapl'' \<lparr> nResults = None, whereFilter = None \<rparr> = Inr ?res"
    by (simp add: searchByTicker_def searchSimilar_def hits_of_def metadata_at_def distance_at_def
        js_minus_def js_sub_def)
  from C1_similarity[OF h1 h2] obtain r where
    "?r = r" and "length (distances r) = length (documents r) \<longrightarrow> sorted_wrt js_le (distances r)
               \<longrightarrow> sorted_wrt (\<lambda>a b. js_le b a) (map similarity (results ?res))"
    by auto
  then have "sorted_wrt (\<lambda>a b. js_le b a) (map similarity (results ?res))"
    by (auto simp: js_le_def)
  then show ?thesis using h2 by simp
qed

subsection \<open>Grouping by company and date\<close>














section \<open>Properties of the collection life cycle\<close>

lemma ensureCollection_listed:
  assumes "listCollections cl s = (Inr names, s1)" and "collectionName m \<in> set names"
    and "getCollection cl (collectionName m) s1 = (g, s2)"
  shows "ensureCollection cl m (s, calls) =
           (case g of
              Inl e \<Rightarrow> (Inl e, m, (s2, calls @ [ListCollections, GetCollection (collectionName m)]))
            | Inr h \<Rightarrow> verify_collection (m\<lparr>collection := h\<rparr>)
                        (s2, calls @ [ListCollections, GetCollection (collectionName m)]))"
  using assms by (simp add: ensureCollection_def split: sum.splits)

lemma ensureCollection_created:
  assumes "listCollections cl s = (Inr names, s1)" and "collectionName m \<notin> set names"
    and "createCollection cl (collectionName m) s1 = (Inr h, s2)"
  shows "ensureCollection cl m (s, calls) =
           verify_collection (m\<lparr>collection := h\<rparr>)
             (s2, calls @ [ListCollections, CreateCollection (collectionName m)])"
  using assms by (simp add: ensureCollection_def)

lemma ensureCollection_conflict:
  assumes "listCollections cl s = (Inr names, s1)" and "collectionName m \<notin> set names"
    and "createCollection cl (collectionName m) s1 = (Inl e, s2)" and "conflict e"
    and "getCollection cl (collectionName m) s2 = (g, s3)"
  shows "ensureCollection cl m (s, calls) =
           (case g of
              Inl e' \<Rightarrow> (Inl e', m, (s3, calls @ [ListCollections, CreateCollection (collectionName m),
                                                 GetCollection (collectionName m)]))
            | Inr h \<Rightarrow> verify_collection (m\<lparr>collection := h\<rparr>)
                        (s3, calls @ [ListCollections, CreateCollection (collectionName m),
                                    GetCollection (collectionName m)]))"
  using assms by (auto simp: ensureCollection_def conflict_def split: sum.splits)

lemma ensureCollection_other_failure:
  assumes "listCollections cl s = (Inr names, s1)" and "collectionName m \<notin> set names"
    and "createCollection cl (collectionName m) s1 = (Inl e, s2)" and "\<not> conflict e"
  shows "ensureCollection cl m (s, calls) =
           (Inl e, m, (s2, calls @ [ListCollections, CreateCollection (collectionName m)]))"
  using assms by (simp add: ensureCollection_def conflict_def)

lemma initialize_rethrows:
  assumes "fst (ensureCollection cl m w) = Inl e"
  shows "fst (initialize cl m w) = Inl e
         \<and> isReady (fst (snd (initialize cl m w))) = isReady (fst (snd (ensureCollection cl m w)))"
  using assms by (auto simp: initialize_def split: prod.splits sum.splits)

lemma ensureCollection_keeps_ready:
  "isReady (fst (snd (ensureCollection cl m w))) = isReady m"
  by (auto simp: ensureCollection_def verify_collection_def split: prod.splits sum.splits)

lemma initialize_attach:
  assumes "listCollections cl s = (Inr names, s1)" and "collectionName m \<in> set names"
    and "getCollection cl (collectionName m) s1 = (Inr (Some h), s2)"
  shows "initialize cl m (s, calls) =
           (Inr (), m\<lparr>collection := Some h, isReady := True\<rparr>,
            (s2, calls @ [ListCollections, GetCollection (collectionName m)]))"
  using ensureCollection_listed[OF assms, of calls]
  by (simp add: initialize_def verify_collection_def)


text \<open>
  C3. Let \<open>listCollections\<close> answer with the names \<open>names\<close>, and let \<open>name\<close> be the manager's
  collection name. If \<open>name\<close> is not listed, the next call is CREATE. If CREATE fails with
  an already-exists error, exactly one GET follows and decides the outcome: its failure
  is rethrown, by \<open>ensureCollection\<close> and by \<open>initialize\<close>, with no further call, and its
  handle makes \<open>initialize\<close> end ready with that handle. Any other CREATE failure is
  rethrown with no GET at all, and so is a GET failure for a listed name. Finally, when
  the store lists \<open>name\<close> and returns a handle for it at both calls, two calls of
  \<open>initialize\<close> in a row both return normally, and both end ready with a handle for
  \<open>name\<close>.
\<close>

theorem C3_create_then_get_once:
  fixes cl :: "'s client"
  assumes "listCollections cl s = (Inr names, s1)" and "collectionName m = name"
  shows "(name \<notin> set names \<longrightarrow>
            (\<exists>rest. snd (snd (snd (ensureCollection cl m (s, calls))))
                      = calls @ [ListCollections, CreateCollection name] @ rest))
       \<and> (name \<notin> set names \<and> createCollection cl name s1 = (Inl e, s2) \<and> conflict e
            \<and> getCollection cl name s2 = (g, s3) \<longrightarrow>
            snd (snd (ensureCollection cl m (s, calls)))
              = (s3, calls @ [ListCollections, CreateCollection name, GetCollection name])
          \<and> (\<forall>e'. g = Inl e' \<longrightarrow> fst (ensureCollection cl m (s, calls)) = Inl e'
                     \<and> fst (initialize cl m (s, calls)) = Inl e')
          \<and> (\<forall>h. g = Inr (Some h) \<longrightarrow>
                 fst (ensureCollection cl m (s, calls)) = Inr ()
               \<and> fst (snd (initialize cl m (s, calls))) = m\<lparr>collection := Some h, isReady := True\<rparr>))
       \<and> (name \<notin> set names \<and> createCollection cl name s1 = (Inl e, s2) \<and> \<not> conflict e \<longrightarrow>
            ensureCollection cl m (s, calls)
              = (Inl e, m, (s2, calls @ [ListCollections, CreateCollection name]))
          \<and> fst (initialize cl m (s, calls)) = Inl e)
       \<and> (name \<in> set names \<and> getCollection cl name s1 = (Inl e, s2) \<longrightarrow>
            ensureCollection cl m (s, calls)
              = (Inl e, m, (s2, calls @ [ListCollections, GetCollection name]))
          \<and> fst (initialize cl m (s, calls)) = Inl e)
       \<and> (name \<in> set names \<and> getCollection cl name s1 = (Inr (Some h), s2)
            \<and> listCollections cl s2 = (Inr names', s3) \<and> name \<in> set names'
            \<and> getCollection cl name s3 = (Inr (Some h'), s4) \<longrightarrow>
            (\<exists>m1 w1 m2 w2.
                initialize cl m (s, calls) = (Inr (), m1, w1)
              \<and> initialize cl m1 w1 = (Inr (), m2, w2)
              \<and> isReady m1 \<and> isReady m2
              \<and> collection m1 = Some h \<and> collection m2 = Some h'
              \<and> collectionName m1 = name \<and> collectionName m2 = name))"
proof -
  note list = assms(1)
  note nm = assms(2)[symmetric]
  have c1: "name \<notin> set names \<longrightarrow>
            (\<exists>rest. snd (snd (snd (ensureCollection cl m (s, calls))))
                      = calls @ [ListCollections, CreateCollection name] @ rest)"
    using list
    by (auto simp: nm ensureCollection_def verify_collection_def split: prod.splits sum.splits)
  have c2: "snd (snd (ensureCollection cl m (s, calls)))
              = (s3, calls @ [ListCollections, CreateCollection name, GetCollection name])
          \<and> (\<forall>e'. g = Inl e' \<longrightarrow> fst (ensureCollection cl m (s, calls)) = Inl e'
                     \<and> fst (initialize cl m (s, calls)) = Inl e')
          \<and> (\<forall>h. g = Inr (Some h) \<longrightarrow>
                 fst (ensureCollection cl m (s, calls)) = Inr ()
               \<and> fst (snd (initialize cl m (s, calls))) = m\<lparr>collection := Some h, isReady := True\<rparr>)"
    if "name \<notin> set names" "createCollection cl name s1 = (Inl e, s2)" "conflict e"
       "getCollection cl name s2 = (g, s3)"
    using ensureCollection_conflict[OF list, of m e s2 g s3 calls] that
    by (cases g) (auto simp: nm initialize_def verify_collection_def)
  have c3: "ensureCollection cl m (s, calls)
              = (Inl e, m, (s2, calls @ [ListCollections, CreateCollection name]))
          \<and> fst (initialize cl m (s, calls)) = Inl e"
    if "name \<notin> set names" "createCollection cl name s1 = (Inl e, s2)" "\<not> conflict e"
    using ensureCollection_other_failure[OF list, of m e s2 calls] that
    by (simp add: nm initialize_def)
  have c4: "ensureCollection cl m (s, calls)
              = (Inl e, m, (s2, calls @ [ListCollections, GetCollection name]))
          \<and> fst (initialize cl m (s, calls)) = Inl e"
    if "name \<in> set names" "getCollection cl name s1 = (Inl e, s2)"
    using ensureCollection_listed[OF list, of m "Inl e" s2 calls] that
    by (simp add: nm initialize_def)
  have c5: "\<exists>m1 w1 m2 w2.
                initialize cl m (s, calls) = (Inr (), m1, w1)
              \<and> initialize cl m1 w1 = (Inr (), m2, w2)
              \<and> isReady m1 \<and> isReady m2
              \<and> collection m1 = Some h \<and> collection m2 = Some h'
              \<and> collectionName m1 = name \<and> collectionName m2 = name"
    if a: "name \<in> set names" "getCollection cl name s1 = (Inr (Some h), s2)"
       "listCollections cl s2 = (Inr names', s3)" "name \<in> set names'"
       "getCollection cl name s3 = (Inr (Some h'), s4)"
  proof -
    let ?m1 = "m\<lparr>collection := Some h, isReady := True\<rparr>"
    let ?w1 = "(s2, calls @ [ListCollections, GetCollection (collectionName m)])"
    have i1: "initialize cl m (s, calls) = (Inr (), ?m1, ?w1)"
      using initialize_attach[OF list, of m h s2 calls] a(1,2) by (simp add: nm)
    have i2: "initialize cl ?m1 ?w1 =
                (Inr (), ?m1\<lparr>collection := Some h', isReady := True\<rparr>,
                 (s4, snd ?w1 @ [ListCollections, GetCollection (collectionName ?m1)]))"
      using initialize_attach[OF a(3), of ?m1 h' s4 "snd ?w1"] a(4,5) by (simp add: nm)
    show ?thesis
      using i1 i2 by (simp add: nm)
  qed
  from c1 c2 c3 c4 c5 show ?thesis by blast
qed


theorem C3_create_then_get_once_witness:
  "snd (snd (ensureCollection
       \<lparr> listCollections = (\<lambda>s. (Inr [], s)),
         getCollection = (\<lambda>n s. (Inr (Some (Collection n)), s)),
         createCollection = (\<lambda>n s. (Inl (Error ''Collection esg already exists''), s)) \<rparr>
       \<lparr>collectionName = ''esg'', isReady = False, collection = None\<rparr> ((), [])))
     = ((), [ListCollections, CreateCollection ''esg'', GetCollection ''esg''])
   \<and> fst (snd (initialize
       \<lparr> listCollections = (\<lambda>s. (Inr [], s)),
         getCollection = (\<lambda>n s. (Inr (Some (Collection n)), s)),
         createCollection = (\<lambda>n s. (Inl (Error ''Collection esg already exists''), s)) \<rparr>
       \<lparr>collectionName = ''esg'', isReady = False, collection = None\<rparr> ((), [])))
     = \<lparr>collectionName = ''esg'', isReady = True, collection = Some (Collection ''esg'')\<rparr>
   \<and> fst (initialize
       \<lparr> listCollections = (\<lambda>s. (Inr [], s)),
         getCollection = (\<lambda>n s. (Inl (Error ''store unavailable''), s)),
         createCollection = (\<lambda>n s. (Inl (Error ''Collection esg already exists''), s)) \<rparr>
       \<lparr>collectionName = ''esg'', isReady = False, collection = None\<rparr> ((), []))
     = Inl (Error ''store unavailable'')
   \<and> ensureCollection
       \<lparr> listCollections = (\<lambda>s. (Inr [], s)),
         getCollection = (\<lambda>n s. (Inr (Some (Collection n)), s)),
         createCollection = (\<lambda>n s. (Inl (Error ''quota exceeded''), s)) \<rparr>
       \<lparr>collectionName = ''esg'', isReady = False, collection = None\<rparr> ((), [])
     = (Inl (Error ''quota exceeded''),
        \<lparr>collectionName = ''esg'', isReady = False, collection = None\<rparr>,
        ((), [ListCollections, CreateCollection ''esg'']))
   \<and> fst (initialize
       \<lparr> listCollections = (\<lambda>s. (Inr [''esg''], s)),
         getCollection = (\<lambda>n s. (Inl (Error ''store unavailable''), s)),
         createCollection = (\<lambda>n s. (Inl (Error ''Collection esg already exists''), s)) \<rparr>
       \<lparr>collectionName = ''esg'', isReady = False, collection = None\<rparr> ((), []))
     = Inl (Error ''store unavailable'')
   \<and> (\<exists>m1 w1 m2 w2.
         initialize store_client \<lparr>collectionName = ''esg'', isReady = False, collection = None\<rparr>
           ([''esg''], []) = (Inr (), m1, w1)
       \<and> initialize store_client m1 w1 = (Inr (), m2, w2)
       \<and> isReady m1 \<and> isReady m2
       \<and> collection m1 = Some (Collection ''esg'') \<and> collection m2 = Some (Collection ''esg'')
       \<and> collectionName m1 = ''esg'' \<and> collectionName m2 = ''esg'')"
proof -
  let ?m = "\<lparr>collectionName = ''esg'', isReady = False, collection = None\<rparr>"
  let ?exists = "Error ''Collection esg already exists''"
  let ?a = "\<lparr> listCollections = (\<lambda>s::unit. (Inr [], s)),
         getCollection = (\<lambda>n s. (Inr (Some (Collection n)), s)),
         createCollection = (\<lambda>n s. (Inl ?exists, s)) \<rparr>"
  let ?b = "\<lparr> listCollections = (\<lambda>s::unit. (Inr [], s)),
         getCollection = (\<lambda>n s. (Inl (Error ''store unavailable''), s)),
         createCollection = (\<lambda>n s. (Inl ?exists, s)) \<rparr>"
  let ?c = "\<lparr> listCollections = (\<lambda>s::unit. (Inr [], s)),
         getCollection = (\<lambda>n s. (Inr (Some (Collection n)), s)),
         createCollection = (\<lambda>n s. (Inl (Error ''quota exceeded''), s)) \<rparr>"
  let ?d = "\<lparr> listCollections = (\<lambda>s::unit. (Inr [''esg''], s)),
         getCollection = (\<lambda>n s. (Inl (Error ''store unavailable''), s)),
         createCollection = (\<lambda>n s. (Inl ?exists, s)) \<rparr>"
  have nm: "collectionName ?m = ''esg''" by simp
  have cf: "conflict ?exists" by (simp add: conflict_def)
  have ncf: "\<not> conflict (Error ''quota exceeded'')" by (simp add: conflict_def)
  have la: "listCollections ?a () = (Inr [], ())" by simp
  have lb: "listCollections ?b () = (Inr [], ())" by simp
  have lc: "listCollections ?c () = (Inr [], ())" by simp
  have ld: "listCollections ?d () = (Inr [''esg''], ())" by simp
  have ls: "listCollections store_client [''esg''] = (Inr [''esg''], [''esg''])"
    by (simp add: store_client_def)
  have gs: "getCollection store_client ''esg'' [''esg''] = (Inr (Some (Collection ''esg'')), [''esg''])"
    by (simp add: store_client_def)
  have ra: "snd (snd (ensureCollection ?a ?m ((), [])))
              = ((), [ListCollections, CreateCollection ''esg'', GetCollection ''esg''])
            \<and> fst (snd (initialize ?a ?m ((), [])))
              = \<lparr>collectionName = ''esg'', isReady = True, collection = Some (Collection ''esg'')\<rparr>"
    using C3_create_then_get_once[OF la nm, where calls = "[]" and e = ?exists and ?s2.0 = "()"
        and g = "Inr (Some (Collection ''esg''))" and ?s3.0 = "()"] cf
    by simp
  have rb: "fst (initialize ?b ?m ((), [])) = Inl (Error ''store unavailable'')"
    using C3_create_then_get_once[OF lb nm, where calls = "[]" and e = ?exists and ?s2.0 = "()"
        and g = "Inl (Error ''store unavailable'')" and ?s3.0 = "()"] cf
    by simp
  have rc: "ensureCollection ?c ?m ((), [])
              = (Inl (Error ''quota exceeded''), ?m, ((), [ListCollections, CreateCollection ''esg'']))"
    using C3_create_then_get_once[OF lc nm, where calls = "[]" and e = "Error ''quota exceeded''"
        and ?s2.0 = "()"] ncf
    by simp
  have rd: "fst (initialize ?d ?m ((), [])) = Inl (Error ''store unavailable'')"
    using C3_create_then_get_once[OF ld nm, where calls = "[]" and e = "Error ''store unavailable''"
        and ?s2.0 = "()"]
    by simp
  have rs: "\<exists>m1 w1 m2 w2.
         initialize store_client ?m ([''esg''], []) = (Inr (), m1, w1)
       \<and> initialize store_client m1 w1 = (Inr (), m2, w2)
       \<and> isReady m1 \<and> isReady m2
       \<and> collection m1 = Some (Collection ''esg'') \<and> collection m2 = Some (Collection ''esg'')
       \<and> collectionName m1 = ''esg'' \<and> collectionName m2 = ''esg''"
    using C3_create_then_get_once[OF ls nm, where calls = "[]" and h = "Collection ''esg''"
        and ?s2.0 = "[''esg'']" and names' = "[''esg'']" and ?s3.0 = "[''esg'']"
        and h' = "Collection ''esg''" and ?s4.0 = "[''esg'']"] ls gs
    by simp
  from ra rb rc rd rs show ?thesis by blast
qed

section \<open>Properties of the analyzers\<close>

subsection \<open>Risk assessment\<close>

lemma latestData_last: "data \<noteq> [] \<Longrightarrow> latestData data = Some (last data)"
  by (cases data rule: rev_cases) (auto simp: latestData_def array_at_def nth_append)

lemma js_less_numbers: "js_less (JNum (Fin a)) (JNum (Fin b)) = (a < b)"
  by simp

lemma risk_labels_distinct:
  "distinct [Yuksek, Orta, Dusuk]" "distinct [Cevresel_Risk, Sosyal_Risk, Yonetisim_Riski]"
  by (simp_all add: Yuksek_def Orta_def Dusuk_def Cevresel_Risk_def Sosyal_Risk_def Yonetisim_Riski_def)

text \<open>
  C7. For the latest record of a non-empty data list with numeric pillar scores, the
  risk assessor lists, in the order environment, social, governance, one risk for each
  pillar whose score is below 40 and none for the others; the count is the number of
  listed risks, and the overall level is \<open>Yuksek\<close> (high) for three risks, \<open>Orta\<close> (medium)
  for one or two, and \<open>Dusuk\<close> (low) for none. The labels are pairwise different.
\<close>

theorem C7_risk_buckets:
  assumes "data \<noteq> []"
    and "js_get (last data) ''environment_score'' = JNum (Fin e)"
    and "js_get (last data) ''social_score'' = JNum (Fin so)"
    and "js_get (last data) ''governance_score'' = JNum (Fin g)"
  shows "map rtype (risks (assessRisks data))
           = (if e < 40 then [Cevresel_Risk] else []) @ (if so < 40 then [Sosyal_Risk] else [])
             @ (if g < 40 then [Yonetisim_Riski] else [])
       \<and> totalRiskCount (assessRisks data) = length (risks (assessRisks data))
       \<and> riskLevel (assessRisks data)
           = (if 3 \<le> totalRiskCount (assessRisks data) then Yuksek
              else if 1 \<le> totalRiskCount (assessRisks data) then Orta else Dusuk)
       \<and> distinct [Yuksek, Orta, Dusuk] \<and> distinct [Cevresel_Risk, Sosyal_Risk, Yonetisim_Riski]"
proof -
  have ld: "latestData data = Some (last data)" using assms(1) by (rule latestData_last)
  have a: "map rtype (risks (assessRisks data))
           = (if e < 40 then [Cevresel_Risk] else []) @ (if so < 40 then [Sosyal_Risk] else [])
             @ (if g < 40 then [Yonetisim_Riski] else [])"
    using assms(2,3,4) by (simp add: assessRisks_def ld opt_get_def Let_def)
  have b: "totalRiskCount (assessRisks data) = length (risks (assessRisks data))"
    by (simp add: assessRisks_def Let_def)
  have c: "riskLevel (assessRisks data)
           = (if 3 \<le> totalRiskCount (assessRisks data) then Yuksek
              else if 1 \<le> totalRiskCount (assessRisks data) then Orta else Dusuk)"
    by (simp add: assessRisks_def Let_def)
  from a b c risk_labels_distinct show ?thesis by blast
qed

theorem C7_risk_buckets_witness:
  "map rtype (risks (assessRisks [ [(''environment_score'', JNum (Fin 30)), (''social_score'', JNum (Fin 80)),
                                     (''governance_score'', JNum (Fin 80))] ])) = [Cevresel_Risk]
   \<and> totalRiskCount (assessRisks [ [(''environment_score'', JNum (Fin 30)), (''social_score'', JNum (Fin 80)),
                                     (''governance_score'', JNum (Fin 80))] ]) = 1
   \<and> riskLevel (assessRisks [ [(''environment_score'', JNum (Fin 30)), (''social_score'', JNum (Fin 80)),
                                     (''governance_score'', JNum (Fin 80))] ]) = Orta"
proof -
  let ?d = "[ [(''environment_score'', JNum (Fin 30)), (''social_score'', JNum (Fin 80)),
              (''governance_score'', JNum (Fin 80))] ] :: jsobj list"
  have h0: "?d \<noteq> []" by simp
  have h1: "js_get (last ?d) ''environment_score'' = JNum (Fin 30)" by (simp add: js_get_Cons)
  have h2: "js_get (last ?d) ''social_score'' = JNum (Fin 80)" by (simp add: js_get_Cons)
  have h3: "js_get (last ?d) ''governance_score'' = JNum (Fin 80)" by (simp add: js_get_Cons)
  note t = C7_risk_buckets[OF h0 h1 h2 h3]
  from t have m: "map rtype (risks (assessRisks ?d)) = [Cevresel_Risk]" by simp
  then have "length (map rtype (risks (assessRisks ?d))) = 1" by simp
  then have n: "length (risks (assessRisks ?d)) = 1" by simp
  with t have c: "totalRiskCount (assessRisks ?d) = 1" by simp
  with t have "riskLevel (assessRisks ?d) = Orta" by simp
  with m c show ?thesis by blast
qed

subsection \<open>Trends\<close>













subsection \<open>Sector metrics\<close>






lemma mset_insert_by: "mset (insert_by cmp x ys) = add_mset x (mset ys)"
  by (induction ys) auto

lemma mset_array_sort: "mset (array_sort cmp xs) = mset xs"
  by (induction xs) (simp_all add: array_sort_def mset_insert_by)


lemma length_array_sort: "length (array_sort cmp xs) = length xs"
  using mset_array_sort[of cmp xs] by (metis size_mset)










end
